theory Spec2Isabelle
  imports Main
begin

section \<open>Values shared by the services\<close>

text \<open>
  JSON documents, HTTP responses and the winston log. Every service keeps a log; the
  state of a service extends the record \<open>logged\<close>, so one \<open>logger\<close> serves them all.
\<close>

datatype json =
    JNull
  | JBool bool
  | JNum int
  | JStr string
  | JArr "json list"
  | JObj "(string \<times> json) list"

record response =
  status :: nat
  body :: json

datatype level = Info | Warn | Error

record logged =
  logs :: "(level \<times> string) list"

definition logger :: "level \<Rightarrow> string \<Rightarrow> 'a logged_scheme \<Rightarrow> 'a logged_scheme" where
  "logger l msg st = st\<lparr>logs := logs st @ [(l, msg)]\<rparr>"

text \<open>
  What an awaited call can throw. A call to MongoDB, Redis or RabbitMQ throws when
  the collaborator is down (and MongoDB on a duplicate \<open>_id\<close>); \<open>TypeError\<close> carries
  the message of the JavaScript runtime.
\<close>

datatype error =
    MongoError
  | RedisError
  | BrokerError
  | SyntaxError
  | CloudinaryError
  | TypeError string

text \<open>
  \<open>await\<close> runs the continuation on the value of a call that returned, and passes a
  thrown error on together with the state reached so far: what was written before the
  throw stays written. \<open>try_catch\<close> is the handler's \<open>try { ... } catch (e) { ... }\<close>.
\<close>

definition await ::
  "(error + 'a) \<times> 's \<Rightarrow> ('a \<Rightarrow> 's \<Rightarrow> (error + 'b) \<times> 's) \<Rightarrow> (error + 'b) \<times> 's" where
  "await r f = (case r of (Inl e, s) \<Rightarrow> (Inl e, s) | (Inr x, s) \<Rightarrow> f x s)"

definition try_catch ::
  "(error + 'a) \<times> 's \<Rightarrow> (error \<Rightarrow> 's \<Rightarrow> 'a \<times> 's) \<Rightarrow> 'a \<times> 's" where
  "try_catch r h = (case r of (Inl e, s) \<Rightarrow> h e s | (Inr x, s) \<Rightarrow> (x, s))"

definition field :: "string \<Rightarrow> json \<Rightarrow> json option" where
  "field k j = (case j of JObj kvs \<Rightarrow> map_of kvs k | _ \<Rightarrow> None)"

section \<open>Post service: post-controller.js\<close>

record post =
  post_id :: string
  user :: string
  content :: string
  mediaIds :: "string list"
  createdAt :: nat

record cache_entry =
  ce_value :: string
  ce_ttl :: nat

record create_body =
  b_content :: string
  b_mediaIds :: "string list option"

text \<open>
  The collaborators of one request: whether MongoDB, Redis and RabbitMQ answer, the
  validator of \<open>utils/validation.js\<close> (it returns \<open>error.details[0].message\<close> or
  nothing) and the runtime's \<open>JSON.stringify\<close> and \<open>JSON.parse\<close>.
\<close>

record post_env =
  db_ok :: bool
  redis_ok :: bool
  broker_ok :: bool
  validateCreatePost :: "create_body \<Rightarrow> string option"
  JSON_stringify :: "json \<Rightarrow> string"
  JSON_parse :: "string \<Rightarrow> json option"

record post_state = logged +
  posts :: "post list"
  cache :: "(string \<times> cache_entry) list"
  events :: "(string \<times> json) list"

definition post_json :: "post \<Rightarrow> json" where
  "post_json p = JObj
     [(''_id'', JStr (post_id p)), (''user'', JStr (user p)), (''content'', JStr (content p)),
      (''mediaIds'', JArr (map JStr (mediaIds p))), (''createdAt'', JNum (int (createdAt p)))]"

subsection \<open>Redis (ioredis)\<close>

text \<open>
  \<open>get\<close> answers the stored string or null. ioredis sends an argument that is null or
  undefined as the empty string (\<open>toArg\<close>). \<open>keys\<close> takes a pattern \<open>prefix*\<close>, given
  here by its prefix.
\<close>

definition toArg :: "string option \<Rightarrow> string" where
  "toArg a = (case a of None \<Rightarrow> [] | Some s \<Rightarrow> s)"

definition truthy :: "string option \<Rightarrow> bool" where
  "truthy a = (case a of None \<Rightarrow> False | Some s \<Rightarrow> s \<noteq> [])"

definition starts_with :: "string \<Rightarrow> string \<Rightarrow> bool" where
  "starts_with pfx k = (take (length pfx) k = pfx)"

definition redis_get ::
  "post_env \<Rightarrow> string \<Rightarrow> post_state \<Rightarrow> (error + string option) \<times> post_state" where
  "redis_get env k st =
     (if redis_ok env then (Inr (map_option ce_value (map_of (cache st) k)), st)
      else (Inl RedisError, st))"

definition redis_setex ::
  "post_env \<Rightarrow> string \<Rightarrow> nat \<Rightarrow> string \<Rightarrow> post_state \<Rightarrow> (error + unit) \<times> post_state" where
  "redis_setex env k ttl v st =
     (if redis_ok env
      then (Inr (), st\<lparr>cache := (k, \<lparr>ce_value = v, ce_ttl = ttl\<rparr>) # filter (\<lambda>kv. fst kv \<noteq> k) (cache st)\<rparr>)
      else (Inl RedisError, st))"

definition redis_del ::
  "post_env \<Rightarrow> string list \<Rightarrow> post_state \<Rightarrow> (error + unit) \<times> post_state" where
  "redis_del env ks st =
     (if redis_ok env
      then (Inr (), st\<lparr>cache := filter (\<lambda>kv. fst kv \<notin> set ks) (cache st)\<rparr>)
      else (Inl RedisError, st))"

definition redis_keys ::
  "post_env \<Rightarrow> string \<Rightarrow> post_state \<Rightarrow> (error + string list) \<times> post_state" where
  "redis_keys env pfx st =
     (if redis_ok env then (Inr (filter (starts_with pfx) (map fst (cache st))), st)
      else (Inl RedisError, st))"

subsection \<open>MongoDB (the Post model) and RabbitMQ\<close>

definition Post_save :: "post_env \<Rightarrow> post \<Rightarrow> post_state \<Rightarrow> (error + unit) \<times> post_state" where
  "Post_save env p st =
     (if db_ok env \<and> post_id p \<notin> set (map post_id (posts st))
      then (Inr (), st\<lparr>posts := posts st @ [p]\<rparr>)
      else (Inl MongoError, st))"

definition Post_findById ::
  "post_env \<Rightarrow> string \<Rightarrow> post_state \<Rightarrow> (error + post option) \<times> post_state" where
  "Post_findById env i st =
     (if db_ok env then (Inr (find (\<lambda>p. post_id p = i) (posts st)), st)
      else (Inl MongoError, st))"

definition Post_findOneAndDelete ::
  "post_env \<Rightarrow> string \<Rightarrow> string \<Rightarrow> post_state \<Rightarrow> (error + post option) \<times> post_state" where
  "Post_findOneAndDelete env i u st =
     (if db_ok env
      then (case find (\<lambda>p. post_id p = i \<and> user p = u) (posts st) of
              None \<Rightarrow> (Inr None, st)
            | Some p \<Rightarrow> (Inr (Some p), st\<lparr>posts := remove1 p (posts st)\<rparr>))
      else (Inl MongoError, st))"

definition publishEvent ::
  "post_env \<Rightarrow> string \<Rightarrow> json \<Rightarrow> post_state \<Rightarrow> (error + unit) \<times> post_state" where
  "publishEvent env routingKey message st =
     (if broker_ok env then (Inr (), st\<lparr>events := events st @ [(routingKey, message)]\<rparr>)
      else (Inl BrokerError, st))"

subsection \<open>The controllers\<close>

definition invalidatePostCache ::
  "post_env \<Rightarrow> string \<Rightarrow> post_state \<Rightarrow> (error + unit) \<times> post_state" where
  "invalidatePostCache env postId st =
     await (if postId \<noteq> [] then redis_del env [''post:'' @ postId] st else (Inr (), st))
       (\<lambda>_ st1. await (redis_keys env ''posts:'' st1)
          (\<lambda>keys st2. if keys \<noteq> [] then redis_del env keys st2 else (Inr (), st2)))"

text \<open>
  \<open>new Post({user, content, mediaIds: mediaIds || []})\<close>, with the \<open>_id\<close> and the
  \<open>createdAt\<close> that Mongoose adds.
\<close>

definition new_post :: "string \<Rightarrow> create_body \<Rightarrow> string \<Rightarrow> nat \<Rightarrow> post" where
  "new_post userId reqBody newId now =
     \<lparr>post_id = newId, user = userId, content = b_content reqBody,
      mediaIds = (case b_mediaIds reqBody of None \<Rightarrow> [] | Some ms \<Rightarrow> ms), createdAt = now\<rparr>"

text \<open>
  \<open>createPost\<close>: \<open>userId\<close> is \<open>req.user.userId\<close>; \<open>newId\<close> and \<open>now\<close> are the \<open>_id\<close>
  and \<open>createdAt\<close> that Mongoose gives the new document.
\<close>

definition createPost ::
  "post_env \<Rightarrow> string \<Rightarrow> create_body \<Rightarrow> string \<Rightarrow> nat \<Rightarrow> post_state \<Rightarrow> response \<times> post_state" where
  "createPost env userId reqBody newId now st0 =
     (let st = logger Info ''Create Post endpoint hit'' st0 in
      try_catch
        (case validateCreatePost env reqBody of
           Some msg \<Rightarrow>
             (Inr \<lparr>status = 400, body = JObj [(''success'', JBool False), (''message'', JStr msg)]\<rparr>,
              logger Warn ''Validation error'' st)
         | None \<Rightarrow>
             (let newlyCreatedPost = new_post userId reqBody newId now
              in await (Post_save env newlyCreatedPost st)
                   (\<lambda>_ st1. await
                      (publishEvent env ''post.created''
                         (JObj [(''postId'', JStr (post_id newlyCreatedPost)),
                                (''userId'', JStr (user newlyCreatedPost)),
                                (''content'', JStr (content newlyCreatedPost)),
                                (''createdAt'', JNum (int (createdAt newlyCreatedPost)))]) st1)
                      (\<lambda>_ st2. await (invalidatePostCache env (post_id newlyCreatedPost) st2)
                         (\<lambda>_ st3.
                            (Inr \<lparr>status = 201,
                                  body = JObj [(''success'', JBool True),
                                               (''message'', JStr ''Post created successfully'')]\<rparr>,
                             logger Info ''Post created successfully'' st3))))))
        (\<lambda>e st. (\<lparr>status = 500,
                   body = JObj [(''success'', JBool False), (''message'', JStr ''Error at creating post'')]\<rparr>,
                 logger Error ''Error creating post'' st)))"

text \<open>
  \<open>getPost\<close>, with the key of the \<open>setex\<close> call as the source has it: the variable
  \<open>cachedPost\<close>, which holds what \<open>get\<close> answered.
\<close>

definition getPost :: "post_env \<Rightarrow> string \<Rightarrow> post_state \<Rightarrow> response \<times> post_state" where
  "getPost env postId st0 =
     (let st = logger Info ''Get single Post endpoint hit'' st0;
          cacheKey = ''post:'' @ postId
      in try_catch
        (await (redis_get env cacheKey st)
           (\<lambda>cachedPost st1.
              if truthy cachedPost
              then (case JSON_parse env (toArg cachedPost) of
                      None \<Rightarrow> (Inl SyntaxError, logger Info ''Serving post from Redis cache'' st1)
                    | Some j \<Rightarrow>
                        (Inr \<lparr>status = 200, body = j\<rparr>,
                         logger Info ''Serving post from Redis cache'' st1))
              else await (Post_findById env postId (logger Info ''Cache miss'' st1))
                     (\<lambda>singlePost st2.
                        case singlePost of
                          None \<Rightarrow>
                            (Inr \<lparr>status = 404,
                                  body = JObj [(''message'', JStr ''Post not found''),
                                               (''success'', JBool False)]\<rparr>, st2)
                        | Some p \<Rightarrow>
                            await (redis_setex env (toArg cachedPost) 3600
                                     (JSON_stringify env (post_json p)) st2)
                              (\<lambda>_ st3.
                                 (Inr \<lparr>status = 200,
                                       body = JObj [(''singlePost'', post_json p)]\<rparr>, st3)))))
        (\<lambda>e st. (\<lparr>status = 500,
                   body = JObj [(''success'', JBool False), (''message'', JStr ''Error at fetching post'')]\<rparr>,
                 logger Error ''Error fetching post'' st)))"

definition deletePost ::
  "post_env \<Rightarrow> string \<Rightarrow> string \<Rightarrow> post_state \<Rightarrow> response \<times> post_state" where
  "deletePost env userId paramsId st0 =
     (let st = logger Info ''Delete Post endpoint hit'' st0 in
      try_catch
        (await (Post_findOneAndDelete env paramsId userId st)
           (\<lambda>found st1.
              case found of
                None \<Rightarrow>
                  (Inr \<lparr>status = 404,
                        body = JObj [(''message'', JStr ''Post not found''), (''success'', JBool False)]\<rparr>,
                   st1)
              | Some p \<Rightarrow>
                  await (publishEvent env ''post.deleted''
                           (JObj [(''postId'', JStr (post_id p)), (''userId'', JStr userId),
                                  (''mediaIds'', JArr (map JStr (mediaIds p)))]) st1)
                    (\<lambda>_ st2. await (invalidatePostCache env paramsId st2)
                       (\<lambda>_ st3.
                          (Inr \<lparr>status = 200,
                                body = JObj [(''success'', JBool True),
                                             (''message'', JStr ''Post deleted successfully'')]\<rparr>,
                           st3)))))
        (\<lambda>e st. (\<lparr>status = 500,
                   body = JObj [(''success'', JBool False), (''message'', JStr ''Error at Deleting post'')]\<rparr>,
                 logger Error ''Error Deleting post'' st)))"

subsection \<open>The listing\<close>

text \<open>
  \<open>page_q\<close> and \<open>limit_q\<close> are \<open>parseInt(req.query.page)\<close> and
  \<open>parseInt(req.query.limit)\<close>, \<open>None\<close> for NaN; \<open>x || d\<close> takes the default for NaN
  and for 0. MongoDB refuses a negative skip and reads a negative limit as its absolute
  value.
\<close>

definition or_default :: "int option \<Rightarrow> int \<Rightarrow> int" where
  "or_default v d = (case v of None \<Rightarrow> d | Some n \<Rightarrow> if n = 0 then d else n)"

fun digits :: "nat \<Rightarrow> string" where
  "digits n = (if n < 10 then [char_of (48 + n)] else digits (n div 10) @ [char_of (48 + n mod 10)])"

definition show_int :: "int \<Rightarrow> string" where
  "show_int i = (if i < 0 then CHR ''-'' # digits (nat (- i)) else digits (nat i))"

definition Post_find_page ::
  "post_env \<Rightarrow> int \<Rightarrow> int \<Rightarrow> post_state \<Rightarrow> (error + post list) \<times> post_state" where
  "Post_find_page env startIndex limit st =
     (if db_ok env \<and> 0 \<le> startIndex
      then (Inr (take (nat \<bar>limit\<bar>) (drop (nat startIndex) (rev (sort_key createdAt (posts st))))), st)
      else (Inl MongoError, st))"

definition Post_countDocuments :: "post_env \<Rightarrow> post_state \<Rightarrow> (error + nat) \<times> post_state" where
  "Post_countDocuments env st =
     (if db_ok env then (Inr (length (posts st)), st) else (Inl MongoError, st))"

definition getAllPosts ::
  "post_env \<Rightarrow> int option \<Rightarrow> int option \<Rightarrow> post_state \<Rightarrow> response \<times> post_state" where
  "getAllPosts env page_q limit_q st0 =
     (let st = logger Info ''Get All Post endpoint hit'' st0;
          page = or_default page_q 1;
          limit = or_default limit_q 10;
          startIndex = (page - 1) * limit;
          cacheKey = ''posts:'' @ show_int page @ '':'' @ show_int limit
      in try_catch
        (await (redis_get env cacheKey st)
           (\<lambda>cachedPost st1.
              if truthy cachedPost
              then (case JSON_parse env (toArg cachedPost) of
                      None \<Rightarrow> (Inl SyntaxError, logger Info ''Serving posts from Redis cache'' st1)
                    | Some j \<Rightarrow>
                        (Inr \<lparr>status = 200, body = j\<rparr>,
                         logger Info ''Serving posts from Redis cache'' st1))
              else await (Post_find_page env startIndex limit (logger Info ''Cache miss'' st1))
                     (\<lambda>found st2. await (Post_countDocuments env st2)
                        (\<lambda>totalNoOfPost st3.
                           let result = JObj
                                 [(''posts'', JArr (map post_json found)),
                                  (''currentpage'', JNum page),
                                  (''totalPages'', JNum (- ((- int totalNoOfPost) div limit))),
                                  (''totalPost'', JNum (int totalNoOfPost))]
                           in await (redis_setex env cacheKey 300 (JSON_stringify env result) st3)
                                (\<lambda>_ st4.
                                   (Inr \<lparr>status = 200, body = result\<rparr>,
                                    logger Info ''Posts cached in Redis'' st4))))))
        (\<lambda>e st. (\<lparr>status = 500,
                   body = JObj [(''success'', JBool False), (''message'', JStr ''Error at fetching post'')]\<rparr>,
                 logger Error ''Error fetching post'' st)))"

subsection \<open>Concrete requests\<close>

definition env_up :: post_env where
  "env_up = \<lparr>db_ok = True, redis_ok = True, broker_ok = True,
             validateCreatePost = (\<lambda>_. None),
             JSON_stringify = (\<lambda>_. ''{}''),
             JSON_parse = (\<lambda>_. Some (JObj []))\<rparr>"

definition hello_post :: post where
  "hello_post = \<lparr>post_id = ''p1'', user = ''U'', content = ''hello'', mediaIds = [''m1'', ''m2''],
                 createdAt = 7\<rparr>"

definition st_hello :: post_state where
  "st_hello = \<lparr>logs = [], posts = [hello_post],
               cache = [(''posts:1:10'', \<lparr>ce_value = ''old listing'', ce_ttl = 300\<rparr>),
                        (''post:p1'', \<lparr>ce_value = ''old post'', ce_ttl = 3600\<rparr>)],
               events = []\<rparr>"

definition st_miss :: post_state where
  "st_miss = \<lparr>logs = [], posts = [hello_post], cache = [], events = []\<rparr>"

definition hello_body :: create_body where
  "hello_body = \<lparr>b_content = ''hello'', b_mediaIds = None\<rparr>"

definition env_broker_down :: post_env where
  "env_broker_down = env_up\<lparr>broker_ok := False\<rparr>"

subsection \<open>States and responses the properties speak of\<close>



definition saved_state :: "string \<Rightarrow> create_body \<Rightarrow> string \<Rightarrow> nat \<Rightarrow> post_state \<Rightarrow> post_state" where
  "saved_state userId reqBody newId now st =
     (logger Info ''Create Post endpoint hit'' st)\<lparr>posts := posts st @ [new_post userId reqBody newId now]\<rparr>"

definition removed_state :: "post \<Rightarrow> post_state \<Rightarrow> post_state" where
  "removed_state p st = (logger Info ''Delete Post endpoint hit'' st)\<lparr>posts := remove1 p (posts st)\<rparr>"

definition created_event :: "string \<Rightarrow> create_body \<Rightarrow> string \<Rightarrow> nat \<Rightarrow> string \<times> json" where
  "created_event userId reqBody newId now =
     (''post.created'',
      JObj [(''postId'', JStr newId), (''userId'', JStr userId),
            (''content'', JStr (b_content reqBody)), (''createdAt'', JNum (int now))])"

definition deleted_event :: "string \<Rightarrow> post \<Rightarrow> string \<times> json" where
  "deleted_event userId p =
     (''post.deleted'',
      JObj [(''postId'', JStr (post_id p)), (''userId'', JStr userId),
            (''mediaIds'', JArr (map JStr (mediaIds p)))])"

definition published :: "string \<times> json \<Rightarrow> post_state \<Rightarrow> post_state" where
  "published ev st = st\<lparr>events := events st @ [ev]\<rparr>"

definition error_response :: "string \<Rightarrow> response" where
  "error_response msg = \<lparr>status = 500, body = JObj [(''success'', JBool False), (''message'', JStr msg)]\<rparr>"

definition ok_response :: "nat \<Rightarrow> string \<Rightarrow> response" where
  "ok_response code msg = \<lparr>status = code, body = JObj [(''success'', JBool True), (''message'', JStr msg)]\<rparr>"

definition not_found_response :: response where
  "not_found_response =
     \<lparr>status = 404, body = JObj [(''message'', JStr ''Post not found''), (''success'', JBool False)]\<rparr>"

subsection \<open>A listing read in flight\<close>

text \<open>
  \<open>getAllPosts\<close> suspends at each \<open>await\<close>. On a cache miss it runs in two steps
  around its last suspension: \<open>getAllPosts_fetch\<close> queries MongoDB and builds the result,
  \<open>getAllPosts_store\<close> writes the result to the cache and answers. Another request can
  run between the two. The concrete run below has a read suspended there while
  \<open>deletePost\<close> runs to its answer. \<open>env_rt\<close> serialises the listing that holds \<open>p1\<close> to a
  string and parses it back.
\<close>

definition getAllPosts_fetch ::
  "post_env \<Rightarrow> int option \<Rightarrow> int option \<Rightarrow> post_state \<Rightarrow> (error + json) \<times> post_state" where
  "getAllPosts_fetch env page_q limit_q st1 =
     (let page = or_default page_q 1;
          limit = or_default limit_q 10;
          startIndex = (page - 1) * limit
      in await (Post_find_page env startIndex limit (logger Info ''Cache miss'' st1))
           (\<lambda>found st2. await (Post_countDocuments env st2)
              (\<lambda>totalNoOfPost st3.
                 (Inr (JObj
                        [(''posts'', JArr (map post_json found)),
                         (''currentpage'', JNum page),
                         (''totalPages'', JNum (- ((- int totalNoOfPost) div limit))),
                         (''totalPost'', JNum (int totalNoOfPost))]), st3))))"

definition getAllPosts_store ::
  "post_env \<Rightarrow> int option \<Rightarrow> int option \<Rightarrow> json \<Rightarrow> post_state \<Rightarrow> (error + response) \<times> post_state" where
  "getAllPosts_store env page_q limit_q result st3 =
     (let page = or_default page_q 1;
          limit = or_default limit_q 10;
          cacheKey = ''posts:'' @ show_int page @ '':'' @ show_int limit
      in await (redis_setex env cacheKey 300 (JSON_stringify env result) st3)
           (\<lambda>_ st4. (Inr \<lparr>status = 200, body = result\<rparr>, logger Info ''Posts cached in Redis'' st4)))"






section \<open>Identity service: the login and refresh controllers, generateToken.js\<close>

record user_doc =
  u_id :: string
  username :: string
  email :: string
  password :: string

record refresh_token =
  rt_id :: string
  token :: string
  rt_user :: string
  expiresAt :: nat

record login_body =
  l_email :: string
  l_password :: string

text \<open>
  The collaborators: MongoDB, the validator of \<open>utils/validation.js\<close>,
  \<open>argon2.verify\<close> (\<open>None\<close> when it throws) and \<open>jwt.sign\<close>. \<open>fresh\<close> holds what one call
  of \<open>generateTokens\<close> draws: the hex string of \<open>crypto.randomBytes(40)\<close> and the
  \<open>_id\<close> of the created document. Time is in milliseconds.
\<close>

record identity_env =
  id_db_ok :: bool
  validatelogin :: "login_body \<Rightarrow> string option"
  argon2_verify :: "string \<Rightarrow> string \<Rightarrow> bool option"
  jwt_sign :: "string \<Rightarrow> string \<Rightarrow> nat \<Rightarrow> string"

record fresh =
  randomBytes :: string
  new_rt_id :: string

record identity_state = logged +
  users :: "user_doc list"
  refreshTokens :: "refresh_token list"

definition User_findOne_email ::
  "identity_env \<Rightarrow> string \<Rightarrow> identity_state \<Rightarrow> (error + user_doc option) \<times> identity_state" where
  "User_findOne_email env e st =
     (if id_db_ok env then (Inr (find (\<lambda>u. email u = e) (users st)), st) else (Inl MongoError, st))"

definition User_findById ::
  "identity_env \<Rightarrow> string \<Rightarrow> identity_state \<Rightarrow> (error + user_doc option) \<times> identity_state" where
  "User_findById env i st =
     (if id_db_ok env then (Inr (find (\<lambda>u. u_id u = i) (users st)), st) else (Inl MongoError, st))"

definition comparePassword ::
  "identity_env \<Rightarrow> user_doc \<Rightarrow> string \<Rightarrow> identity_state \<Rightarrow> (error + bool) \<times> identity_state" where
  "comparePassword env u candidatePassword st =
     (case argon2_verify env (password u) candidatePassword of
        None \<Rightarrow> (Inl (TypeError ''argon2''), st)
      | Some b \<Rightarrow> (Inr b, st))"

definition RefreshToken_findOne ::
  "identity_env \<Rightarrow> string \<Rightarrow> identity_state \<Rightarrow> (error + refresh_token option) \<times> identity_state" where
  "RefreshToken_findOne env t st =
     (if id_db_ok env then (Inr (find (\<lambda>r. token r = t) (refreshTokens st)), st)
      else (Inl MongoError, st))"

definition RefreshToken_create ::
  "identity_env \<Rightarrow> refresh_token \<Rightarrow> identity_state \<Rightarrow> (error + unit) \<times> identity_state" where
  "RefreshToken_create env r st =
     (if id_db_ok env \<and> rt_id r \<notin> set (map rt_id (refreshTokens st))
      then (Inr (), st\<lparr>refreshTokens := refreshTokens st @ [r]\<rparr>)
      else (Inl MongoError, st))"

definition RefreshToken_deleteOne_id ::
  "identity_env \<Rightarrow> string \<Rightarrow> identity_state \<Rightarrow> (error + unit) \<times> identity_state" where
  "RefreshToken_deleteOne_id env i st =
     (if id_db_ok env
      then (Inr (), st\<lparr>refreshTokens :=
                         (case find (\<lambda>r. rt_id r = i) (refreshTokens st) of
                            None \<Rightarrow> refreshTokens st
                          | Some r \<Rightarrow> remove1 r (refreshTokens st))\<rparr>)
      else (Inl MongoError, st))"

definition seven_days :: nat where
  "seven_days = 7 * 24 * 60 * 60 * 1000"

definition generateTokens ::
  "identity_env \<Rightarrow> user_doc \<Rightarrow> fresh \<Rightarrow> nat \<Rightarrow> identity_state \<Rightarrow>
   (error + string \<times> string) \<times> identity_state" where
  "generateTokens env u fr now st =
     (let accessToken = jwt_sign env (u_id u) (username u) now;
          refreshToken = randomBytes fr;
          expires = now + seven_days
      in await (RefreshToken_create env
                  \<lparr>rt_id = new_rt_id fr, token = refreshToken, rt_user = u_id u, expiresAt = expires\<rparr> st)
           (\<lambda>_ st1. (Inr (accessToken, refreshToken), st1)))"

definition invalid_credentials :: response where
  "invalid_credentials =
     \<lparr>status = 400, body = JObj [(''success'', JBool False), (''message'', JStr ''Invalid Credentials'')]\<rparr>"

definition internal_server_error :: response where
  "internal_server_error =
     \<lparr>status = 500, body = JObj [(''success'', JBool False), (''message'', JStr ''Internal server error'')]\<rparr>"

definition loginUser ::
  "identity_env \<Rightarrow> login_body \<Rightarrow> fresh \<Rightarrow> nat \<Rightarrow> identity_state \<Rightarrow> response \<times> identity_state" where
  "loginUser env reqBody fr now st0 =
     (let st = logger Info ''Login endpoint hit..'' st0 in
      try_catch
        (case validatelogin env reqBody of
           Some msg \<Rightarrow>
             (Inr \<lparr>status = 400, body = JObj [(''success'', JBool False), (''message'', JStr msg)]\<rparr>,
              logger Warn ''Validation error'' st)
         | None \<Rightarrow>
             await (User_findOne_email env (l_email reqBody) st)
               (\<lambda>found st1.
                  case found of
                    None \<Rightarrow> (Inr invalid_credentials, logger Warn ''Invalid user attempt'' st1)
                  | Some u \<Rightarrow>
                      await (comparePassword env u (l_password reqBody) st1)
                        (\<lambda>isValidPassword st2.
                           if \<not> isValidPassword
                           then (Inr invalid_credentials, logger Warn ''Invalid password attempt'' st2)
                           else await (generateTokens env u fr now st2)
                                  (\<lambda>toks st3.
                                     (Inr \<lparr>status = 200,
                                           body = JObj [(''success'', JBool True),
                                                        (''accessToken'', JStr (fst toks)),
                                                        (''refreshToken'', JStr (snd toks)),
                                                        (''userId'', JStr (u_id u))]\<rparr>, st3)))))
        (\<lambda>e st. (internal_server_error, logger Error ''Login error occurred'' st)))"

definition invalid_or_expired :: response where
  "invalid_or_expired =
     \<lparr>status = 401,
      body = JObj [(''success'', JBool False), (''message'', JStr ''Invalid or expired token'')]\<rparr>"

definition refreshTokenUser ::
  "identity_env \<Rightarrow> string option \<Rightarrow> fresh \<Rightarrow> nat \<Rightarrow> identity_state \<Rightarrow> response \<times> identity_state" where
  "refreshTokenUser env refreshToken fr now st0 =
     (let st = logger Info ''Refresh Token endpoint hit..'' st0 in
      try_catch
        (if \<not> truthy refreshToken
         then (Inr \<lparr>status = 400,
                    body = JObj [(''success'', JBool False), (''message'', JStr ''Refresh token missing'')]\<rparr>,
               logger Warn ''Refresh Token missing'' st)
         else await (RefreshToken_findOne env (toArg refreshToken) st)
                (\<lambda>storedToken st1.
                   case storedToken of
                     None \<Rightarrow> (Inr invalid_or_expired, logger Warn ''Invalid or expired refresh token'' st1)
                   | Some stored \<Rightarrow>
                       if expiresAt stored < now
                       then (Inr invalid_or_expired, logger Warn ''Invalid or expired refresh token'' st1)
                       else await (User_findById env (rt_user stored) st1)
                              (\<lambda>found st2.
                                 case found of
                                   None \<Rightarrow>
                                     (Inr \<lparr>status = 401,
                                           body = JObj [(''success'', JBool False),
                                                        (''message'', JStr ''User not found'')]\<rparr>,
                                      logger Warn ''User not found'' st2)
                                 | Some u \<Rightarrow>
                                     await (generateTokens env u fr now st2)
                                       (\<lambda>toks st3.
                                          await (RefreshToken_deleteOne_id env (rt_id stored) st3)
                                            (\<lambda>_ st4.
                                               (Inr \<lparr>status = 200,
                                                     body = JObj [(''success'', JBool True),
                                                                  (''accessToken'', JStr (fst toks)),
                                                                  (''refreshToken'', JStr (snd toks))]\<rparr>,
                                                st4))))))
        (\<lambda>e st. (internal_server_error, logger Error ''Refresh Token error occurred'' st)))"

subsection \<open>Concrete users and tokens\<close>

definition alice :: user_doc where
  "alice = \<lparr>u_id = ''u1'', username = ''alice'', email = ''alice@x.com'', password = ''$argon2$secret123''\<rparr>"

definition id_env :: identity_env where
  "id_env = \<lparr>id_db_ok = True, validatelogin = (\<lambda>_. None),
             argon2_verify = (\<lambda>h c. Some (h = ''$argon2$'' @ c)),
             jwt_sign = (\<lambda>uid uname now. ''jwt.'' @ uid)\<rparr>"

definition st_alice :: identity_state where
  "st_alice = \<lparr>logs = [], users = [alice],
               refreshTokens = [\<lparr>rt_id = ''r1'', token = ''aa11'', rt_user = ''u1'', expiresAt = 1000\<rparr>]\<rparr>"

definition fresh2 :: fresh where
  "fresh2 = \<lparr>randomBytes = ''bb22'', new_rt_id = ''r2''\<rparr>"

definition fresh3 :: fresh where
  "fresh3 = \<lparr>randomBytes = ''cc33'', new_rt_id = ''r3''\<rparr>"

text \<open>
  The stored refresh tokens after a successful rotation: the new token is appended, then
  the document with the \<open>_id\<close> of the presented one is deleted.
\<close>

definition rotated :: "refresh_token \<Rightarrow> user_doc \<Rightarrow> fresh \<Rightarrow> nat \<Rightarrow> identity_state \<Rightarrow> refresh_token list" where
  "rotated stored u fr now st =
     (let ts = refreshTokens st @
                 [\<lparr>rt_id = new_rt_id fr, token = randomBytes fr, rt_user = u_id u,
                   expiresAt = now + seven_days\<rparr>]
      in case find (\<lambda>r. rt_id r = rt_id stored) ts of None \<Rightarrow> ts | Some r \<Rightarrow> remove1 r ts)"

definition st_nobody :: identity_state where
  "st_nobody = \<lparr>logs = [], users = [], refreshTokens = []\<rparr>"

definition wrong_login :: login_body where
  "wrong_login = \<lparr>l_email = ''alice@x.com'', l_password = ''guess''\<rparr>"

section \<open>API gateway: server.js and authMiddleware.js\<close>

record request =
  ip :: string
  http_method :: string
  path :: string
  query :: string
  headers :: "(string \<times> string) list"

record jwt_payload =
  userId :: string
  jwt_username :: string

datatype service = IdentityService | PostService | MediaService | SearchService

record proxy_request =
  target :: service
  p_path :: string
  p_headers :: "(string \<times> string) list"

datatype upstream_result = Reply response | ConnectionError string

record js_error =
  e_status :: "nat option"
  e_message :: string

datatype mw_result = Next | NextErr js_error | End response

text \<open>
  The collaborators of the gateway. \<open>framework_mw\<close> is what \<open>helmet()\<close>, \<open>cors()\<close> and
  \<open>express.json()\<close>, mounted ahead of the limiter, do with a request: pass it on,
  fail (a body that does not parse) or answer it themselves (a CORS preflight).
  \<open>store_error\<close> is the message of the rejection when the Redis store of the limiter
  does not answer, \<open>jwt_verify\<close> is \<open>jwt.verify\<close> with the gateway's secret, \<open>upstream\<close>
  is the service behind the proxy, \<open>production\<close> is \<open>NODE_ENV === 'production'\<close>.
\<close>

record gateway_env =
  framework_mw :: "request \<Rightarrow> mw_result"
  store_error :: "string option"
  jwt_verify :: "string \<Rightarrow> jwt_payload option"
  upstream :: "proxy_request \<Rightarrow> upstream_result"
  production :: bool

record gateway_state = logged +
  hits :: "(string \<times> nat \<times> nat) list"
  forwarded :: "proxy_request list"

definition windowMs :: nat where
  "windowMs = 15 * 60 * 1000"

definition max_hits :: nat where
  "max_hits = 100"

text \<open>
  The store of express-rate-limit counts the hits of a key within its window and opens
  a new window once the old one is over.
\<close>

definition increment :: "string \<Rightarrow> nat \<Rightarrow> gateway_state \<Rightarrow> (nat \<times> nat) \<times> gateway_state" where
  "increment key now st =
     (let bucket = (case map_of (hits st) key of
                      None \<Rightarrow> (1, now + windowMs)
                    | Some (totalHits, resetTime) \<Rightarrow>
                        if now < resetTime then (totalHits + 1, resetTime) else (1, now + windowMs))
      in (bucket, st\<lparr>hits := (key, bucket) # filter (\<lambda>kv. fst kv \<noteq> key) (hits st)\<rparr>))"

definition too_many_requests :: response where
  "too_many_requests =
     \<lparr>status = 429, body = JObj [(''success'', JBool False), (''message'', JStr ''Too many requests'')]\<rparr>"

definition errorHandler :: "gateway_env \<Rightarrow> js_error \<Rightarrow> gateway_state \<Rightarrow> response \<times> gateway_state" where
  "errorHandler env err st =
     (\<lparr>status = (case e_status err of None \<Rightarrow> 500 | Some c \<Rightarrow> if c = 0 then 500 else c),
       body = JObj [(''message'',
                     JStr (if production env then ''Internal Server Error'' else e_message err))]\<rparr>,
      logger Error (e_message err) st)"

definition proxyErrorHandler :: "string \<Rightarrow> gateway_state \<Rightarrow> response \<times> gateway_state" where
  "proxyErrorHandler err_message st =
     (\<lparr>status = 500,
       body = JObj [(''message'', JStr ''Internal server error''), (''error'', JStr err_message)]\<rparr>,
      logger Error (''Proxy error: '' @ err_message) st)"

text \<open>
  \<open>globalRateLimiter\<close> answers whether the request goes on (\<open>Inr None\<close>) or was answered
  by the \<open>handler\<close> of the source (\<open>Inr (Some response)\<close>); a store that does not answer
  is an error for the error handler.
\<close>

definition globalRateLimiter ::
  "gateway_env \<Rightarrow> request \<Rightarrow> nat \<Rightarrow> gateway_state \<Rightarrow> (js_error + response option) \<times> gateway_state" where
  "globalRateLimiter env req now st =
     (case store_error env of
        Some msg \<Rightarrow> (Inl \<lparr>e_status = None, e_message = msg\<rparr>, st)
      | None \<Rightarrow>
          (case increment (ip req) now st of
             ((totalHits, resetTime), st1) \<Rightarrow>
               if totalHits > max_hits
               then (Inr (Some too_many_requests),
                     logger Warn (''Rate limit exceeded for IP: '' @ ip req) st1)
               else (Inr None, st1)))"

fun split_on :: "char \<Rightarrow> string \<Rightarrow> string list" where
  "split_on c [] = [[]]"
| "split_on c (x # xs) =
     (if x = c then [] # split_on c xs
      else (case split_on c xs of [] \<Rightarrow> [[x]] | w # ws \<Rightarrow> (x # w) # ws))"

text \<open>
  \<open>validateToken\<close>: \<open>Inl\<close> is the response it sends itself, \<open>Inr\<close> the decoded payload
  it stores in \<open>req.user\<close> before \<open>next()\<close>.
\<close>

definition validateToken ::
  "gateway_env \<Rightarrow> request \<Rightarrow> gateway_state \<Rightarrow> (response + jwt_payload) \<times> gateway_state" where
  "validateToken env req st =
     (let authHeader = map_of (headers req) ''authorization'';
          tok = (case authHeader of
                   None \<Rightarrow> None
                 | Some h \<Rightarrow>
                     if h = [] then Some []
                     else (case split_on CHR '' '' h of a # b # _ \<Rightarrow> Some b | _ \<Rightarrow> None))
      in if \<not> truthy tok
         then (Inl \<lparr>status = 401,
                    body = JObj [(''message'', JStr ''Authorization required''), (''success'', JBool False)]\<rparr>,
               logger Warn ''Access attempt wihtout valid token'' st)
         else (case jwt_verify env (toArg tok) of
                 None \<Rightarrow>
                   (Inl \<lparr>status = 401,
                         body = JObj [(''message'', JStr ''Invalid token''), (''success'', JBool False)]\<rparr>,
                    logger Warn ''Invalid token'' st)
               | Some u \<Rightarrow> (Inr u, st)))"

definition set_header :: "string \<Rightarrow> string \<Rightarrow> (string \<times> string) list \<Rightarrow> (string \<times> string) list" where
  "set_header k v hs = (k, v) # filter (\<lambda>kv. fst kv \<noteq> k) hs"

definition originalUrl :: "request \<Rightarrow> string" where
  "originalUrl req = path req @ (if query req = [] then [] else CHR ''?'' # query req)"

definition proxyReqPathResolver :: "request \<Rightarrow> string" where
  "proxyReqPathResolver req =
     (if starts_with ''/v1'' (originalUrl req) then ''/api'' @ drop 3 (originalUrl req)
      else originalUrl req)"

definition startsWith_of_undefined :: string where
  "startsWith_of_undefined =
     ''Cannot read properties of undefined (reading '' @ [char_of (39::nat)] @ ''startsWith''
       @ [char_of (39::nat)] @ '')''"

text \<open>
  \<open>proxyReqOptDecorator\<close> of each mount; \<open>proxyReqOpts.headers\<close> starts as a copy of
  the headers of the request. The media mount reads the \<open>content-type\<close> header of the
  request and calls \<open>startsWith\<close> on it.
\<close>

definition proxyReqOptDecorator ::
  "service \<Rightarrow> request \<Rightarrow> jwt_payload option \<Rightarrow> string + (string \<times> string) list" where
  "proxyReqOptDecorator svc srcReq usr =
     (case svc of
        IdentityService \<Rightarrow> Inr (set_header ''Content-Type'' ''application/json'' (headers srcReq))
      | PostService \<Rightarrow>
          (case usr of
             None \<Rightarrow> Inl ''Cannot read properties of undefined''
           | Some u \<Rightarrow>
               Inr (set_header ''x-user-id'' (userId u)
                     (set_header ''Content-Type'' ''application/json'' (headers srcReq))))
      | MediaService \<Rightarrow>
          (case usr of
             None \<Rightarrow> Inl ''Cannot read properties of undefined''
           | Some u \<Rightarrow>
               (let hs = set_header ''x-user-id'' (userId u) (headers srcReq) in
                case map_of (headers srcReq) ''content-type'' of
                  None \<Rightarrow> Inl startsWith_of_undefined
                | Some ct \<Rightarrow>
                    if \<not> starts_with ''multipart/form-data'' ct
                    then Inr (set_header ''Content-Type'' ''application/json'' hs)
                    else Inr hs))
      | SearchService \<Rightarrow>
          (case usr of
             None \<Rightarrow> Inl ''Cannot read properties of undefined''
           | Some u \<Rightarrow>
               Inr (set_header ''x-user-id'' (userId u)
                     (set_header ''Content-Type'' ''application/json'' (headers srcReq)))))"

text \<open>
  The proxy of express-http-proxy: decorate the options, resolve the path, send. An
  exception of a decorator and a failure to reach the upstream both end in
  \<open>proxyErrorHandler\<close>; an answer of the upstream is relayed as it is.
\<close>

definition proxy ::
  "gateway_env \<Rightarrow> service \<Rightarrow> request \<Rightarrow> jwt_payload option \<Rightarrow> gateway_state \<Rightarrow>
   response \<times> gateway_state" where
  "proxy env svc req usr st =
     (case proxyReqOptDecorator svc req usr of
        Inl msg \<Rightarrow> proxyErrorHandler msg st
      | Inr hs \<Rightarrow>
          (let preq = \<lparr>target = svc, p_path = proxyReqPathResolver req, p_headers = hs\<rparr>;
               st1 = st\<lparr>forwarded := forwarded st @ [preq]\<rparr>
           in case upstream env preq of
                ConnectionError msg \<Rightarrow> proxyErrorHandler msg st1
              | Reply r \<Rightarrow> (r, logger Info ''Response received'' st1)))"

definition mounted :: "string \<Rightarrow> string \<Rightarrow> bool" where
  "mounted pfx p = (p = pfx \<or> starts_with (pfx @ ''/'') p)"

definition protected :: "gateway_env \<Rightarrow> service \<Rightarrow> request \<Rightarrow> gateway_state \<Rightarrow> response \<times> gateway_state" where
  "protected env svc req st =
     (case validateToken env req st of
        (Inl r, st1) \<Rightarrow> (r, st1)
      | (Inr u, st1) \<Rightarrow> proxy env svc req (Some u) st1)"

definition route :: "gateway_env \<Rightarrow> request \<Rightarrow> gateway_state \<Rightarrow> response \<times> gateway_state" where
  "route env req st =
     (if mounted ''/v1/auth'' (path req) then proxy env IdentityService req None st
      else if mounted ''/v1/posts'' (path req) then protected env PostService req st
      else if mounted ''/v1/media'' (path req) then protected env MediaService req st
      else if mounted ''/v1/search'' (path req) then protected env SearchService req st
      else (\<lparr>status = 404, body = JStr (''Cannot '' @ http_method req @ '' '' @ path req)\<rparr>, st))"

definition gateway :: "gateway_env \<Rightarrow> request \<Rightarrow> nat \<Rightarrow> gateway_state \<Rightarrow> response \<times> gateway_state" where
  "gateway env req now st =
     (case framework_mw env req of
        End r \<Rightarrow> (r, st)
      | NextErr err \<Rightarrow> errorHandler env err st
      | Next \<Rightarrow>
          (case globalRateLimiter env req now st of
             (Inl err, st1) \<Rightarrow> errorHandler env err st1
           | (Inr (Some r), st1) \<Rightarrow> (r, st1)
           | (Inr None, st1) \<Rightarrow>
               route env req
                 (logger Info ''Request body''
                    (logger Info (''Received '' @ http_method req @ '' request to '' @ path req) st1))))"

text \<open>
  The error body the specification describes: an object with exactly the fields
  \<open>success\<close>, false, and \<open>message\<close>, a string.
\<close>

definition error_shape :: "json \<Rightarrow> bool" where
  "error_shape j =
     (case j of
        JObj kvs \<Rightarrow>
          set (map fst kvs) = {''success'', ''message''} \<and> map_of kvs ''success'' = Some (JBool False)
          \<and> (case map_of kvs ''message'' of Some (JStr m) \<Rightarrow> True | _ \<Rightarrow> False)
      | _ \<Rightarrow> False)"

subsection \<open>Concrete requests to the gateway\<close>

definition gw_env :: gateway_env where
  "gw_env = \<lparr>framework_mw = (\<lambda>_. Next), store_error = None,
             jwt_verify = (\<lambda>t. if t = ''good'' then Some \<lparr>userId = ''u1'', jwt_username = ''alice''\<rparr> else None),
             upstream = (\<lambda>_. Reply \<lparr>status = 200, body = JObj [(''success'', JBool True)]\<rparr>),
             production = True\<rparr>"


definition gw_empty :: gateway_state where
  "gw_empty = \<lparr>logs = [], hits = [], forwarded = []\<rparr>"

definition gw_exhausted :: gateway_state where
  "gw_exhausted = \<lparr>logs = [], hits = [(''1.2.3.4'', 100, 5000)], forwarded = []\<rparr>"

definition get_media :: request where
  "get_media = \<lparr>ip = ''1.2.3.4'', http_method = ''GET'', path = ''/v1/media/get'', query = [],
                headers = [(''authorization'', ''Bearer good'')]\<rparr>"

definition get_posts :: request where
  "get_posts = \<lparr>ip = ''1.2.3.4'', http_method = ''GET'', path = ''/v1/posts/all-posts'', query = ''page=1'',
                headers = [(''authorization'', ''Bearer good'')]\<rparr>"





definition options_posts :: request where
  "options_posts = get_posts\<lparr>http_method := ''OPTIONS''\<rparr>"

text \<open>
  What the middlewares ahead of the limiter do: \<open>cors()\<close> answers a preflight itself
  with 204, \<open>express.json()\<close> fails a body that does not parse with status 400.
\<close>

definition gw_env_preflight :: gateway_env where
  "gw_env_preflight =
     gw_env\<lparr>framework_mw :=
              (\<lambda>r. if http_method r = ''OPTIONS'' then End \<lparr>status = 204, body = JNull\<rparr> else Next)\<rparr>"

definition gw_env_malformed :: gateway_env where
  "gw_env_malformed =
     gw_env\<lparr>framework_mw :=
              (\<lambda>_. NextErr \<lparr>e_status = Some 400, e_message = ''Unexpected token } in JSON''\<rparr>)\<rparr>"

section \<open>Media service: the handler of post.deleted\<close>

record media =
  media_id :: string
  publicId :: string

datatype media_call = Destroy string | FindByIdAndDelete string

text \<open>
  The collaborators: whether \<open>Media.find\<close> answers, for which \<open>publicId\<close> Cloudinary
  deletes the blob and for which \<open>_id\<close> MongoDB deletes the record. The state keeps the
  calls made, in order.
\<close>

record media_env =
  find_ok :: bool
  destroy_ok :: "string \<Rightarrow> bool"
  delete_ok :: "string \<Rightarrow> bool"

record media_state = logged +
  medias :: "media list"
  blobs :: "string list"
  calls :: "media_call list"

definition Media_find ::
  "media_env \<Rightarrow> string list \<Rightarrow> media_state \<Rightarrow> (error + media list) \<times> media_state" where
  "Media_find env ids st =
     (if find_ok env then (Inr (filter (\<lambda>m. media_id m \<in> set ids) (medias st)), st)
      else (Inl MongoError, st))"

definition deleteMediaFromCloudinary ::
  "media_env \<Rightarrow> string \<Rightarrow> media_state \<Rightarrow> (error + unit) \<times> media_state" where
  "deleteMediaFromCloudinary env pub st =
     (let st1 = st\<lparr>calls := calls st @ [Destroy pub]\<rparr>
      in if destroy_ok env pub then (Inr (), st1\<lparr>blobs := removeAll pub (blobs st1)\<rparr>)
         else (Inl CloudinaryError, st1))"

definition Media_findByIdAndDelete ::
  "media_env \<Rightarrow> string \<Rightarrow> media_state \<Rightarrow> (error + unit) \<times> media_state" where
  "Media_findByIdAndDelete env i st =
     (let st1 = st\<lparr>calls := calls st @ [FindByIdAndDelete i]\<rparr>
      in if delete_ok env i
         then (Inr (), st1\<lparr>medias := (case find (\<lambda>m. media_id m = i) (medias st1) of
                                         None \<Rightarrow> medias st1
                                       | Some m \<Rightarrow> remove1 m (medias st1))\<rparr>)
         else (Inl MongoError, st1))"

fun delete_each :: "media_env \<Rightarrow> media list \<Rightarrow> media_state \<Rightarrow> (error + unit) \<times> media_state" where
  "delete_each env [] st = (Inr (), st)"
| "delete_each env (m # ms) st =
     await (deleteMediaFromCloudinary env (publicId m) st)
       (\<lambda>_ st1. await (Media_findByIdAndDelete env (media_id m) st1)
          (\<lambda>_ st2. delete_each env ms (logger Info (''Deleted media '' @ media_id m) st2)))"

definition handlePostDeleted :: "media_env \<Rightarrow> string \<Rightarrow> string list \<Rightarrow> media_state \<Rightarrow> media_state" where
  "handlePostDeleted env postId ids st =
     snd (try_catch
            (await (Media_find env ids st)
               (\<lambda>mediaToDelete st1. await (delete_each env mediaToDelete st1)
                  (\<lambda>_ st2. (Inr (), logger Info ''Processed deletion of media for post id'' st2))))
            (\<lambda>e st. ((), logger Error ''Error occured while media deletion'' st)))"

definition attempts :: "media \<Rightarrow> media_call list" where
  "attempts m = [Destroy (publicId m), FindByIdAndDelete (media_id m)]"

definition deletes :: "media_env \<Rightarrow> media \<Rightarrow> bool" where
  "deletes env m = (destroy_ok env (publicId m) \<and> delete_ok env (media_id m))"

subsection \<open>Concrete media\<close>

definition m1 :: media where
  "m1 = \<lparr>media_id = ''m1'', publicId = ''pub1''\<rparr>"

definition m2 :: media where
  "m2 = \<lparr>media_id = ''m2'', publicId = ''pub2''\<rparr>"

definition media_env_record1_fails :: media_env where
  "media_env_record1_fails = \<lparr>find_ok = True, destroy_ok = (\<lambda>_. True), delete_ok = (\<lambda>i. i \<noteq> ''m1'')\<rparr>"

definition media_env_pub2_fails :: media_env where
  "media_env_pub2_fails = \<lparr>find_ok = True, destroy_ok = (\<lambda>p. p \<noteq> ''pub2''), delete_ok = (\<lambda>_. True)\<rparr>"

definition st_media :: media_state where
  "st_media = \<lparr>logs = [], medias = [m1, m2], blobs = [''pub1'', ''pub2''], calls = []\<rparr>"

section \<open>Properties of the post service\<close>






lemma new_post_sel:
  "post_id (new_post u b pid now) = pid" "user (new_post u b pid now) = u"
  "content (new_post u b pid now) = b_content b" "createdAt (new_post u b pid now) = now"
  by (simp_all add: new_post_def)


lemma Post_save_ok:
  "db_ok env \<Longrightarrow> post_id p \<notin> set (map post_id (posts st)) \<Longrightarrow>
   Post_save env p st = (Inr (), st\<lparr>posts := posts st @ [p]\<rparr>)"
  by (simp add: Post_save_def)

lemma posts_logger: "posts (logger l m st) = posts st"
  by (simp add: logger_def)

lemma createPost_saved:
  assumes "validateCreatePost env b = None" "db_ok env" "pid \<notin> set (map post_id (posts st))"
  shows "createPost env u b pid now st =
     (if broker_ok env
      then (case invalidatePostCache env pid (published (created_event u b pid now) (saved_state u b pid now st)) of
              (Inl e, s) \<Rightarrow> (error_response ''Error at creating post'', logger Error ''Error creating post'' s)
            | (Inr x, s) \<Rightarrow>
                (ok_response 201 ''Post created successfully'', logger Info ''Post created successfully'' s))
      else (error_response ''Error at creating post'',
            logger Error ''Error creating post'' (saved_state u b pid now st)))"
proof -
  have s: "Post_save env (new_post u b pid now) (logger Info ''Create Post endpoint hit'' st)
           = (Inr (), saved_state u b pid now st)"
    using assms by (simp add: Post_save_ok posts_logger saved_state_def new_post_sel)
  show ?thesis
    unfolding createPost_def Let_def
    by (simp add: assms(1) s try_catch_def await_def publishEvent_def error_response_def ok_response_def
        published_def created_event_def new_post_sel split: prod.splits sum.splits)
qed




lemma deletePost_found:
  assumes "db_ok env" "find (\<lambda>p. post_id p = pid \<and> user p = u) (posts st) = Some p"
  shows "deletePost env u pid st =
     (if broker_ok env
      then (case invalidatePostCache env pid (published (deleted_event u p) (removed_state p st)) of
              (Inl e, s) \<Rightarrow> (error_response ''Error at Deleting post'', logger Error ''Error Deleting post'' s)
            | (Inr x, s) \<Rightarrow> (ok_response 200 ''Post deleted successfully'', s))
      else (error_response ''Error at Deleting post'',
            logger Error ''Error Deleting post'' (removed_state p st)))"
proof -
  have s: "Post_findOneAndDelete env pid u (logger Info ''Delete Post endpoint hit'' st)
           = (Inr (Some p), removed_state p st)"
    using assms by (simp add: Post_findOneAndDelete_def posts_logger removed_state_def)
  show ?thesis
    unfolding deletePost_def Let_def
    by (simp add: s try_catch_def await_def publishEvent_def error_response_def ok_response_def
        published_def deleted_event_def split: prod.splits sum.splits)
qed

lemma deletePost_not_found:
  assumes "db_ok env" "find (\<lambda>p. post_id p = pid \<and> user p = u) (posts st) = None"
  shows "deletePost env u pid st =
     (\<lparr>status = 404, body = JObj [(''message'', JStr ''Post not found''), (''success'', JBool False)]\<rparr>,
      logger Info ''Delete Post endpoint hit'' st)"
proof -
  have s: "Post_findOneAndDelete env pid u (logger Info ''Delete Post endpoint hit'' st)
           = (Inr None, logger Info ''Delete Post endpoint hit'' st)"
    using assms by (simp add: Post_findOneAndDelete_def posts_logger)
  show ?thesis
    unfolding deletePost_def Let_def by (simp add: s try_catch_def await_def)
qed






lemma getAllPosts_in_two_steps:
  "getAllPosts env page_q limit_q st0 =
     (let st = logger Info ''Get All Post endpoint hit'' st0;
          cacheKey = ''posts:'' @ show_int (or_default page_q 1) @ '':'' @ show_int (or_default limit_q 10)
      in try_catch
        (await (redis_get env cacheKey st)
           (\<lambda>cachedPost st1.
              if truthy cachedPost
              then (case JSON_parse env (toArg cachedPost) of
                      None \<Rightarrow> (Inl SyntaxError, logger Info ''Serving posts from Redis cache'' st1)
                    | Some j \<Rightarrow>
                        (Inr \<lparr>status = 200, body = j\<rparr>,
                         logger Info ''Serving posts from Redis cache'' st1))
              else await (getAllPosts_fetch env page_q limit_q st1)
                     (\<lambda>result st3. getAllPosts_store env page_q limit_q result st3)))
        (\<lambda>e st. (\<lparr>status = 500,
                   body = JObj [(''success'', JBool False), (''message'', JStr ''Error at fetching post'')]\<rparr>,
                 logger Error ''Error fetching post'' st)))"
  by (simp add: getAllPosts_def getAllPosts_fetch_def getAllPosts_store_def Let_def await_def
      Post_find_page_def Post_countDocuments_def redis_get_def
      split: prod.splits sum.splits)







text \<open>
  Claim C1, at a request the code can receive: the post \<open>p1\<close> is in the store and not in
  the cache. \<open>getPost\<close> answers 200 with the post, and the entry it writes is under the
  empty key, the value of \<open>cachedPost\<close>, not under \<open>post:p1\<close>: a repeated request misses
  again.
\<close>

theorem getPost_miss_writes_empty_key:
  "map_of (cache st_miss) ''post:p1'' = None
   \<and> find (\<lambda>p. post_id p = ''p1'') (posts st_miss) = Some hello_post
   \<and> fst (getPost env_up ''p1'' st_miss) = \<lparr>status = 200, body = JObj [(''singlePost'', post_json hello_post)]\<rparr>
   \<and> cache (snd (getPost env_up ''p1'' st_miss)) = [([], \<lparr>ce_value = ''{}'', ce_ttl = 3600\<rparr>)]
   \<and> map_of (cache (snd (getPost env_up ''p1'' st_miss))) ''post:p1'' = None"
  by code_simp

lemma map_of_setex_other:
  "k' \<noteq> k \<Longrightarrow> map_of ((k, e) # filter (\<lambda>kv. fst kv \<noteq> k) c) k' = map_of c k'"
  by (induction c) auto

lemma map_of_filter_other:
  "k' \<noteq> k \<Longrightarrow> map_of (filter (\<lambda>kv. fst kv \<noteq> k) c) k' = map_of c k'"
  by (induction c) auto

lemma falsy_toArg: "\<not> truthy a \<Longrightarrow> toArg a = []"
  by (auto simp: truthy_def toArg_def split: option.splits)

lemma getPost_leaves_post_key:
  "map_of (cache (snd (getPost env postId st))) (''post:'' @ postId) = map_of (cache st) (''post:'' @ postId)"
proof (cases "redis_ok env")
  case False
  then show ?thesis
    by (simp add: getPost_def Let_def redis_get_def await_def try_catch_def logger_def)
next
  case True
  let ?c = "map_option ce_value (map_of (cache st) (''post:'' @ postId))"
  show ?thesis
  proof (cases "truthy ?c")
    case t: True
    then show ?thesis using True
      by (simp add: getPost_def Let_def redis_get_def await_def try_catch_def logger_def
          split: option.splits)
  next
    case f: False
    then have k: "toArg ?c = []" by (rule falsy_toArg)
    show ?thesis using True f k
      by (simp add: getPost_def Let_def redis_get_def await_def try_catch_def logger_def
          Post_findById_def redis_setex_def map_of_filter_other split: option.splits)
  qed
qed

lemma find_by_id_owner:
  "distinct (map post_id ps) \<Longrightarrow> p \<in> set ps \<Longrightarrow>
   find (\<lambda>q. post_id q = post_id p \<and> user q = u) ps = (if u = user p then Some p else None)"
  by (induction ps) (auto simp: image_iff find_None_iff)

lemma invalidate_keeps:
  "posts (snd (invalidatePostCache env pid st)) = posts st"
  "events (snd (invalidatePostCache env pid st)) = events st"
  by (simp_all add: invalidatePostCache_def await_def redis_del_def redis_keys_def)

text \<open>
  Claim C3 as stated fails: with RabbitMQ down, \<open>publishEvent\<close> throws inside the
  \<open>try\<close> of the controller, so \<open>createPost\<close> and \<open>deletePost\<close> answer 500 with
  \<open>success: false\<close>, while the post stays saved (or stays deleted).
\<close>

theorem publish_failure_counterexample:
  "status (fst (createPost env_broker_down ''U'' hello_body ''p2'' 9 st_hello)) = 500
   \<and> field ''success'' (body (fst (createPost env_broker_down ''U'' hello_body ''p2'' 9 st_hello))) = Some (JBool False)
   \<and> posts (snd (createPost env_broker_down ''U'' hello_body ''p2'' 9 st_hello)) = [hello_post, new_post ''U'' hello_body ''p2'' 9]
   \<and> status (fst (deletePost env_broker_down ''U'' ''p1'' st_hello)) = 500
   \<and> field ''success'' (body (fst (deletePost env_broker_down ''U'' ''p1'' st_hello))) = Some (JBool False)
   \<and> posts (snd (deletePost env_broker_down ''U'' ''p1'' st_hello)) = []"
  by code_simp

text \<open>
  Claim C3, amended. When the store write succeeded and the publish throws, the write
  is not rolled back and the failure is logged, and the request is answered 500 with the
  controller's generic message; the cache is not invalidated and no event is recorded.
\<close>

theorem publish_failure_answers_500_keeps_write:
  assumes "db_ok env" "\<not> broker_ok env"
  shows "(validateCreatePost env reqBody = None \<and> newId \<notin> set (map post_id (posts st)) \<longrightarrow>
            fst (createPost env uid reqBody newId now st) = error_response ''Error at creating post''
            \<and> posts (snd (createPost env uid reqBody newId now st)) = posts st @ [new_post uid reqBody newId now]
            \<and> logs (snd (createPost env uid reqBody newId now st))
                 = logs st @ [(Info, ''Create Post endpoint hit''), (Error, ''Error creating post'')]
            \<and> cache (snd (createPost env uid reqBody newId now st)) = cache st
            \<and> events (snd (createPost env uid reqBody newId now st)) = events st)
       \<and> (find (\<lambda>q. post_id q = paramsId \<and> user q = uid) (posts st) = Some p \<longrightarrow>
            fst (deletePost env uid paramsId st) = error_response ''Error at Deleting post''
            \<and> posts (snd (deletePost env uid paramsId st)) = remove1 p (posts st)
            \<and> logs (snd (deletePost env uid paramsId st))
                 = logs st @ [(Info, ''Delete Post endpoint hit''), (Error, ''Error Deleting post'')]
            \<and> cache (snd (deletePost env uid paramsId st)) = cache st
            \<and> events (snd (deletePost env uid paramsId st)) = events st)"
proof (intro conjI impI)
  assume a: "validateCreatePost env reqBody = None \<and> newId \<notin> set (map post_id (posts st))"
  then have v: "validateCreatePost env reqBody = None" and f: "newId \<notin> set (map post_id (posts st))"
    by simp_all
  note eq = createPost_saved[OF v assms(1) f, of uid now]
  show "fst (createPost env uid reqBody newId now st) = error_response ''Error at creating post''"
    unfolding eq using assms(2) by simp
  show "posts (snd (createPost env uid reqBody newId now st)) = posts st @ [new_post uid reqBody newId now]"
    unfolding eq using assms(2) by (simp add: saved_state_def logger_def)
  show "logs (snd (createPost env uid reqBody newId now st))
                 = logs st @ [(Info, ''Create Post endpoint hit''), (Error, ''Error creating post'')]"
    unfolding eq using assms(2) by (simp add: saved_state_def logger_def)
  show "cache (snd (createPost env uid reqBody newId now st)) = cache st"
    unfolding eq using assms(2) by (simp add: saved_state_def logger_def)
  show "events (snd (createPost env uid reqBody newId now st)) = events st"
    unfolding eq using assms(2) by (simp add: saved_state_def logger_def)
next
  assume a: "find (\<lambda>q. post_id q = paramsId \<and> user q = uid) (posts st) = Some p"
  note eq = deletePost_found[OF assms(1) a]
  show "fst (deletePost env uid paramsId st) = error_response ''Error at Deleting post''"
    unfolding eq using assms(2) by simp
  show "posts (snd (deletePost env uid paramsId st)) = remove1 p (posts st)"
    unfolding eq using assms(2) by (simp add: removed_state_def logger_def)
  show "logs (snd (deletePost env uid paramsId st))
                 = logs st @ [(Info, ''Delete Post endpoint hit''), (Error, ''Error Deleting post'')]"
    unfolding eq using assms(2) by (simp add: removed_state_def logger_def)
  show "cache (snd (deletePost env uid paramsId st)) = cache st"
    unfolding eq using assms(2) by (simp add: removed_state_def logger_def)
  show "events (snd (deletePost env uid paramsId st)) = events st"
    unfolding eq using assms(2) by (simp add: removed_state_def logger_def)
qed

theorem publish_failure_answers_500_keeps_write_witness:
  "db_ok env_broker_down \<and> \<not> broker_ok env_broker_down
   \<and> validateCreatePost env_broker_down hello_body = None \<and> ''p2'' \<notin> set (map post_id (posts st_hello))
   \<and> find (\<lambda>q. post_id q = ''p1'' \<and> user q = ''U'') (posts st_hello) = Some hello_post
   \<and> fst (createPost env_broker_down ''U'' hello_body ''p2'' 9 st_hello) = error_response ''Error at creating post''
   \<and> posts (snd (createPost env_broker_down ''U'' hello_body ''p2'' 9 st_hello))
       = posts st_hello @ [new_post ''U'' hello_body ''p2'' 9]
   \<and> fst (deletePost env_broker_down ''U'' ''p1'' st_hello) = error_response ''Error at Deleting post''
   \<and> posts (snd (deletePost env_broker_down ''U'' ''p1'' st_hello)) = remove1 hello_post (posts st_hello)"
proof -
  have a: "db_ok env_broker_down" and b: "\<not> broker_ok env_broker_down"
    by (simp_all add: env_broker_down_def env_up_def)
  have c: "validateCreatePost env_broker_down hello_body = None"
    by (simp add: env_broker_down_def env_up_def)
  have d: "''p2'' \<notin> set (map post_id (posts st_hello))"
    by (simp add: st_hello_def hello_post_def)
  have e: "find (\<lambda>q. post_id q = ''p1'' \<and> user q = ''U'') (posts st_hello) = Some hello_post"
    by (simp add: st_hello_def hello_post_def)
  show ?thesis
    using publish_failure_answers_500_keeps_write[OF a b, of hello_body "''p2''" st_hello "''U''" 9 "''p1''" hello_post]
      a b c d e
    by simp
qed

text \<open>
  Claim C7. With MongoDB answering and a stored post \<open>p\<close> (ids are unique in the
  collection): \<open>deletePost\<close> by a user other than the owner answers 404 and leaves the
  posts as they were; \<open>deletePost\<close> by the owner removes the post and, when the broker
  takes the message, publishes \<open>post.deleted\<close> with the post's id, the owner's id and
  the post's \<open>mediaIds\<close>.
\<close>

theorem deletePost_ownership:
  assumes "db_ok env" "distinct (map post_id (posts st))" "p \<in> set (posts st)"
  shows "(V \<noteq> user p \<longrightarrow>
            fst (deletePost env V (post_id p) st) = not_found_response
            \<and> posts (snd (deletePost env V (post_id p) st)) = posts st
            \<and> events (snd (deletePost env V (post_id p) st)) = events st)
       \<and> p \<notin> set (posts (snd (deletePost env (user p) (post_id p) st)))
       \<and> posts (snd (deletePost env (user p) (post_id p) st)) = remove1 p (posts st)
       \<and> (broker_ok env \<longrightarrow>
            events (snd (deletePost env (user p) (post_id p) st)) = events st @ [deleted_event (user p) p])"
proof -
  have d: "distinct (posts st)" using assms(2) by (simp add: distinct_map)
  have nf: "V \<noteq> user p \<Longrightarrow> find (\<lambda>q. post_id q = post_id p \<and> user q = V) (posts st) = None"
    using find_by_id_owner[OF assms(2,3), of V] by simp
  have fo: "find (\<lambda>q. post_id q = post_id p \<and> user q = user p) (posts st) = Some p"
    using find_by_id_owner[OF assms(2,3), of "user p"] by simp
  note eq = deletePost_found[OF assms(1) fo]
  have inv: "posts (snd (invalidatePostCache env i s)) = posts s"
       "events (snd (invalidatePostCache env i s)) = events s" for i s
    by (rule invalidate_keeps)+
  have ps: "posts (snd (deletePost env (user p) (post_id p) st)) = remove1 p (posts st)"
    unfolding eq using inv(1)[of "post_id p" "published (deleted_event (user p) p) (removed_state p st)"]
    by (cases "invalidatePostCache env (post_id p) (published (deleted_event (user p) p) (removed_state p st))";
        cases "fst (invalidatePostCache env (post_id p) (published (deleted_event (user p) p) (removed_state p st)))")
       (simp_all add: published_def removed_state_def logger_def)
  have ev: "broker_ok env \<Longrightarrow>
            events (snd (deletePost env (user p) (post_id p) st)) = events st @ [deleted_event (user p) p]"
    unfolding eq using inv(2)[of "post_id p" "published (deleted_event (user p) p) (removed_state p st)"]
    by (cases "invalidatePostCache env (post_id p) (published (deleted_event (user p) p) (removed_state p st))";
        cases "fst (invalidatePostCache env (post_id p) (published (deleted_event (user p) p) (removed_state p st)))")
       (simp_all add: published_def removed_state_def logger_def)
  show ?thesis
    using ps ev d nf by (auto simp: deletePost_not_found[OF assms(1)] not_found_response_def logger_def)
qed

theorem deletePost_ownership_witness:
  "db_ok env_up \<and> distinct (map post_id (posts st_hello)) \<and> hello_post \<in> set (posts st_hello)
   \<and> ''V'' \<noteq> user hello_post \<and> broker_ok env_up
   \<and> fst (deletePost env_up ''V'' ''p1'' st_hello) = not_found_response
   \<and> posts (snd (deletePost env_up ''V'' ''p1'' st_hello)) = [hello_post]
   \<and> posts (snd (deletePost env_up ''U'' ''p1'' st_hello)) = []
   \<and> events (snd (deletePost env_up ''U'' ''p1'' st_hello))
        = [(''post.deleted'', JObj [(''postId'', JStr ''p1''), (''userId'', JStr ''U''),
                                   (''mediaIds'', JArr [JStr ''m1'', JStr ''m2''])])]"
proof -
  have a: "db_ok env_up" and b: "broker_ok env_up" by (simp_all add: env_up_def)
  have c: "distinct (map post_id (posts st_hello))" by (simp add: st_hello_def)
  have d: "hello_post \<in> set (posts st_hello)" by (simp add: st_hello_def)
  have e: "''V'' \<noteq> user hello_post" "user hello_post = ''U''" "post_id hello_post = ''p1''"
    by (simp_all add: hello_post_def)
  show ?thesis
    using deletePost_ownership[OF a c d, of "''V''"] a b c d e
    by (simp add: st_hello_def deleted_event_def hello_post_def)
qed

section \<open>Properties of the identity service\<close>

lemmas refresh_defs = refreshTokenUser_def Let_def try_catch_def await_def RefreshToken_findOne_def
      User_findById_def generateTokens_def RefreshToken_create_def RefreshToken_deleteOne_id_def
      logger_def invalid_or_expired_def internal_server_error_def

lemma refreshTokenUser_200:
  assumes "status (fst (refreshTokenUser env rt fr now st)) = 200"
  shows "\<exists>stored u. truthy rt \<and> id_db_ok env
           \<and> find (\<lambda>r. token r = toArg rt) (refreshTokens st) = Some stored
           \<and> find (\<lambda>u. u_id u = rt_user stored) (users st) = Some u
           \<and> new_rt_id fr \<notin> set (map rt_id (refreshTokens st))
           \<and> refreshTokens (snd (refreshTokenUser env rt fr now st)) = rotated stored u fr now st"
proof -
  have t: "truthy rt"
    using assms by (cases "truthy rt") (simp_all add: refresh_defs)
  have db: "id_db_ok env"
    using assms t by (cases "id_db_ok env") (simp_all add: refresh_defs)
  obtain stored where f: "find (\<lambda>r. token r = toArg rt) (refreshTokens st) = Some stored"
    using assms t db by (cases "find (\<lambda>r. token r = toArg rt) (refreshTokens st)") (simp_all add: refresh_defs)
  have e: "\<not> expiresAt stored < now"
    using assms t db f by (cases "expiresAt stored < now") (simp_all add: refresh_defs)
  obtain u where fu: "find (\<lambda>u. u_id u = rt_user stored) (users st) = Some u"
    using assms t db f e
    by (cases "find (\<lambda>u. u_id u = rt_user stored) (users st)") (simp_all add: refresh_defs)
  have n: "new_rt_id fr \<notin> set (map rt_id (refreshTokens st))"
    using assms t db f e fu
    by (cases "new_rt_id fr \<in> set (map rt_id (refreshTokens st))") (simp_all add: refresh_defs)
  have r: "refreshTokens (snd (refreshTokenUser env rt fr now st)) = rotated stored u fr now st"
    using t db f e fu n by (simp add: refresh_defs rotated_def split: option.splits)
  from t db f fu n r show ?thesis by blast
qed

lemma refreshTokenUser_unknown:
  assumes "find (\<lambda>r. token r = t) (refreshTokens st) = None" "t \<noteq> []"
  shows "fst (refreshTokenUser env (Some t) fr now st) =
           (if id_db_ok env then invalid_or_expired else internal_server_error)"
  using assms
  by (simp add: refreshTokenUser_def Let_def try_catch_def await_def RefreshToken_findOne_def
      logger_def truthy_def toArg_def)

lemma find_first_by_id:
  "distinct (map f xs) \<Longrightarrow> x \<in> set xs \<Longrightarrow> find (\<lambda>r. f r = f x) (xs @ ys) = Some x"
  by (induction xs) (auto simp: image_iff)

lemma find_Some_mem: "find P xs = Some x \<Longrightarrow> x \<in> set xs \<and> P x"
  by (induction xs) (auto split: if_splits)

lemma token_gone:
  "distinct (map token xs) \<Longrightarrow> x \<in> set xs \<Longrightarrow> token x \<notin> set (map token (remove1 x xs))"
  by (induction xs) (auto simp: image_iff)

text \<open>
  Claim C8. In a store whose refresh tokens and document ids are unique, after a
  \<open>refreshTokenUser\<close> presenting \<open>t\<close> has answered 200 (the random token it drew differs
  from \<open>t\<close>), \<open>t\<close> is no longer stored, and a second call presenting \<open>t\<close> does not
  succeed: it answers 401 "Invalid or expired token" whenever MongoDB answers.
\<close>

theorem refresh_token_single_use:
  assumes "distinct (map token (refreshTokens st))" "distinct (map rt_id (refreshTokens st))"
    and "randomBytes fr \<noteq> t"
    and "status (fst (refreshTokenUser env (Some t) fr now st)) = 200"
  shows "t \<notin> set (map token (refreshTokens (snd (refreshTokenUser env (Some t) fr now st))))
       \<and> status (fst (refreshTokenUser env' (Some t) fr' now' (snd (refreshTokenUser env (Some t) fr now st)))) \<noteq> 200
       \<and> (id_db_ok env' \<longrightarrow>
            fst (refreshTokenUser env' (Some t) fr' now' (snd (refreshTokenUser env (Some t) fr now st)))
              = invalid_or_expired)"
proof -
  let ?st' = "snd (refreshTokenUser env (Some t) fr now st)"
  from refreshTokenUser_200[OF assms(4)] obtain stored u where
    t: "truthy (Some t)" and
    f: "find (\<lambda>r. token r = toArg (Some t)) (refreshTokens st) = Some stored" and
    r: "refreshTokens ?st' = rotated stored u fr now st"
    by blast
  from t have ne: "t \<noteq> []" by (simp add: truthy_def)
  from f have mem: "stored \<in> set (refreshTokens st)" and tok: "token stored = t"
    using find_Some_mem[OF f] by (simp_all add: toArg_def)
  have "refreshTokens ?st' = remove1 stored (refreshTokens st) @
          [\<lparr>rt_id = new_rt_id fr, token = randomBytes fr, rt_user = u_id u, expiresAt = now + seven_days\<rparr>]"
    unfolding r rotated_def Let_def
    using find_first_by_id[OF assms(2) mem] mem by (simp add: remove1_append)
  then have gone: "t \<notin> set (map token (refreshTokens ?st'))"
    using token_gone[OF assms(1) mem] tok assms(3) by auto
  then have "find (\<lambda>r. token r = t) (refreshTokens ?st') = None"
    by (auto simp: find_None_iff)
  from refreshTokenUser_unknown[OF this ne, of env' fr' now'] gone show ?thesis
    by (simp add: invalid_or_expired_def internal_server_error_def)
qed

lemma refresh_first: "status (fst (refreshTokenUser id_env (Some ''aa11'') fresh2 500 st_alice)) = 200"
  by (simp add: refresh_defs id_env_def st_alice_def fresh2_def alice_def truthy_def toArg_def)

theorem refresh_token_single_use_witness:
  "distinct (map token (refreshTokens st_alice)) \<and> distinct (map rt_id (refreshTokens st_alice))
   \<and> randomBytes fresh2 \<noteq> ''aa11''
   \<and> status (fst (refreshTokenUser id_env (Some ''aa11'') fresh2 500 st_alice)) = 200
   \<and> id_db_ok id_env
   \<and> fst (refreshTokenUser id_env (Some ''aa11'') fresh3 600
             (snd (refreshTokenUser id_env (Some ''aa11'') fresh2 500 st_alice))) = invalid_or_expired"
proof -
  have a: "distinct (map token (refreshTokens st_alice))" and b: "distinct (map rt_id (refreshTokens st_alice))"
    by (simp_all add: st_alice_def)
  have c: "randomBytes fresh2 \<noteq> ''aa11''" by (simp add: fresh2_def)
  have d: "id_db_ok id_env" by (simp add: id_env_def)
  have e: "fst (refreshTokenUser id_env (Some ''aa11'') fresh3 600
             (snd (refreshTokenUser id_env (Some ''aa11'') fresh2 500 st_alice))) = invalid_or_expired"
    using refresh_token_single_use[OF a b c refresh_first, of id_env fresh3 600] d by blast
  from a b c d refresh_first e show ?thesis by blast
qed

text \<open>
  Claim C10. For credentials that pass validation, with MongoDB answering: the
  response to a login with an email no user has and the response to a login with a
  registered email and a password that does not verify are the same response, 400 with
  \<open>success: false\<close> and the message "Invalid Credentials".
\<close>

theorem login_failure_indistinguishable:
  assumes "id_db_ok env" "validatelogin env reqBody = None"
    and "find (\<lambda>u. email u = l_email reqBody) (users st1) = None"
    and "find (\<lambda>u. email u = l_email reqBody) (users st2) = Some u"
    and "argon2_verify env (password u) (l_password reqBody) = Some False"
  shows "fst (loginUser env reqBody fr1 now1 st1) = fst (loginUser env reqBody fr2 now2 st2)
       \<and> fst (loginUser env reqBody fr1 now1 st1) = invalid_credentials
       \<and> invalid_credentials =
           \<lparr>status = 400, body = JObj [(''success'', JBool False), (''message'', JStr ''Invalid Credentials'')]\<rparr>"
  using assms
  by (simp add: loginUser_def Let_def try_catch_def await_def User_findOne_email_def comparePassword_def
      logger_def invalid_credentials_def)

theorem login_failure_indistinguishable_witness:
  "id_db_ok id_env \<and> validatelogin id_env wrong_login = None
   \<and> find (\<lambda>u. email u = l_email wrong_login) (users st_nobody) = None
   \<and> find (\<lambda>u. email u = l_email wrong_login) (users st_alice) = Some alice
   \<and> argon2_verify id_env (password alice) (l_password wrong_login) = Some False
   \<and> fst (loginUser id_env wrong_login fresh2 500 st_nobody) = fst (loginUser id_env wrong_login fresh2 500 st_alice)
   \<and> fst (loginUser id_env wrong_login fresh2 500 st_nobody) = invalid_credentials"
proof -
  have a: "id_db_ok id_env" and b: "validatelogin id_env wrong_login = None"
    by (simp_all add: id_env_def)
  have c: "find (\<lambda>u. email u = l_email wrong_login) (users st_nobody) = None"
    by (simp add: st_nobody_def)
  have d: "find (\<lambda>u. email u = l_email wrong_login) (users st_alice) = Some alice"
    by (simp add: st_alice_def alice_def wrong_login_def)
  have e: "argon2_verify id_env (password alice) (l_password wrong_login) = Some False"
    by (simp add: id_env_def alice_def wrong_login_def)
  note w = login_failure_indistinguishable[OF a b c d e, of fresh2 500 fresh2 500]
  from w have f: "fst (loginUser id_env wrong_login fresh2 500 st_nobody)
                  = fst (loginUser id_env wrong_login fresh2 500 st_alice)" by blast
  from w have g: "fst (loginUser id_env wrong_login fresh2 500 st_nobody) = invalid_credentials" by blast
  from a b c d e f g show ?thesis by blast
qed

section \<open>Properties of the gateway\<close>

lemma error_shape_too_many: "error_shape (body too_many_requests)" "status too_many_requests = 429"
  by (auto simp: error_shape_def too_many_requests_def)

lemma increment_exhausted:
  assumes "map_of (hits st) key = Some (n, resetTime)" "now < resetTime"
  shows "increment key now st =
           ((n + 1, resetTime), st\<lparr>hits := (key, (n + 1, resetTime)) # filter (\<lambda>kv. fst kv \<noteq> key) (hits st)\<rparr>)"
  using assms by (simp add: increment_def Let_def)

lemma globalRateLimiter_exhausted:
  assumes "store_error env = None" "map_of (hits st) (ip req) = Some (n, resetTime)"
    "max_hits \<le> n" "now < resetTime"
  shows "globalRateLimiter env req now st =
           (Inr (Some too_many_requests),
            logger Warn (''Rate limit exceeded for IP: '' @ ip req)
              (st\<lparr>hits := (ip req, (n + 1, resetTime)) # filter (\<lambda>kv. fst kv \<noteq> ip req) (hits st)\<rparr>))"
  using assms by (simp add: globalRateLimiter_def increment_exhausted)

text \<open>
  Claim C6 as stated fails for requests that the middlewares mounted ahead of the
  limiter end: from an IP whose budget is exhausted, a CORS preflight is answered 204 and
  a request whose JSON body does not parse is answered 400; neither is answered 429 and
  neither is counted.
\<close>

theorem exhausted_ip_not_always_429:
  "map_of (hits gw_exhausted) (ip options_posts) = Some (100, 5000)
   \<and> map_of (hits gw_exhausted) (ip get_posts) = Some (100, 5000)
   \<and> max_hits \<le> 100 \<and> (10::nat) < 5000
   \<and> status (fst (gateway gw_env_preflight options_posts 10 gw_exhausted)) = 204
   \<and> hits (snd (gateway gw_env_preflight options_posts 10 gw_exhausted)) = hits gw_exhausted
   \<and> status (fst (gateway gw_env_malformed get_posts 10 gw_exhausted)) = 400
   \<and> hits (snd (gateway gw_env_malformed get_posts 10 gw_exhausted)) = hits gw_exhausted"
  by (simp add: gateway_def gw_env_preflight_def gw_env_malformed_def gw_env_def options_posts_def
      get_posts_def gw_exhausted_def max_hits_def errorHandler_def logger_def)

text \<open>
  Claim C6, amended. A request that reaches the limiter (the middlewares mounted ahead
  of it passed it on, the Redis store answers) from an IP whose count in the current
  window has reached the maximum is answered 429 with the body \<open>{success: false, message:
  "Too many requests"}\<close>; nothing is forwarded upstream, and the request is counted once
  and answered once.
\<close>

theorem exhausted_ip_is_rejected_429:
  assumes "framework_mw env req = Next" "store_error env = None"
    and "map_of (hits st) (ip req) = Some (n, resetTime)" "max_hits \<le> n" "now < resetTime"
  shows "fst (gateway env req now st) = too_many_requests
       \<and> status too_many_requests = 429
       \<and> error_shape (body too_many_requests)
       \<and> forwarded (snd (gateway env req now st)) = forwarded st
       \<and> map_of (hits (snd (gateway env req now st))) (ip req) = Some (n + 1, resetTime)"
  using assms
  by (simp add: gateway_def globalRateLimiter_exhausted[OF assms(2-5)] logger_def error_shape_too_many)

theorem exhausted_ip_is_rejected_429_witness:
  "framework_mw gw_env get_posts = Next \<and> store_error gw_env = None
   \<and> map_of (hits gw_exhausted) (ip get_posts) = Some (100, 5000) \<and> max_hits \<le> 100 \<and> (10::nat) < 5000
   \<and> fst (gateway gw_env get_posts 10 gw_exhausted) = too_many_requests
   \<and> forwarded (snd (gateway gw_env get_posts 10 gw_exhausted)) = []"
proof -
  have a: "framework_mw gw_env get_posts = Next" and b: "store_error gw_env = None"
    by (simp_all add: gw_env_def)
  have c: "map_of (hits gw_exhausted) (ip get_posts) = Some (100, 5000)"
    by (simp add: gw_exhausted_def get_posts_def)
  have d: "max_hits \<le> 100" by (simp add: max_hits_def)
  have e: "(10::nat) < 5000" by simp
  have f: "forwarded gw_exhausted = []" by (simp add: gw_exhausted_def)
  note w = exhausted_ip_is_rejected_429[OF a b c d e]
  from w have g: "fst (gateway gw_env get_posts 10 gw_exhausted) = too_many_requests" by blast
  from w f have h: "forwarded (snd (gateway gw_env get_posts 10 gw_exhausted)) = []" by simp
  from a b c d e g h show ?thesis by blast
qed

text \<open>
  Claim C5, at a request the gateway can receive: \<open>GET /v1/media/get\<close> with a bearer
  token that verifies and no \<open>content-type\<close> header. The decorator of the media mount
  calls \<open>startsWith\<close> on the missing header; the proxy answers 500 through
  \<open>proxyErrorHandler\<close> and forwards nothing. The lemmas after it show the rest of the
  claim: a missing or invalid token is answered 401 and not forwarded on every protected
  mount, and the posts and search mounts (and the media mount when the header is there)
  forward with \<open>x-user-id\<close> set to the \<open>userId\<close> of the token.
\<close>

theorem media_request_without_content_type:
  "jwt_verify gw_env ''good'' = Some \<lparr>userId = ''u1'', jwt_username = ''alice''\<rparr>
   \<and> map_of (headers get_media) ''content-type'' = None
   \<and> fst (gateway gw_env get_media 0 gw_empty)
       = \<lparr>status = 500,
          body = JObj [(''message'', JStr ''Internal server error''),
                       (''error'', JStr startsWith_of_undefined)]\<rparr>
   \<and> forwarded (snd (gateway gw_env get_media 0 gw_empty)) = []"
  by (simp add: gateway_def gw_env_def get_media_def gw_empty_def globalRateLimiter_def increment_def
      max_hits_def windowMs_def logger_def route_def mounted_def starts_with_def protected_def
      validateToken_def truthy_def toArg_def proxy_def proxyReqOptDecorator_def proxyErrorHandler_def
      Let_def)

lemma validateToken_rejects:
  assumes "validateToken env req st = (Inl r, st')"
  shows "status r = 401 \<and> error_shape (body r) \<and> forwarded st' = forwarded st"
  using assms
  by (auto simp: validateToken_def Let_def error_shape_def logger_def split: if_splits option.splits)

lemma validateToken_accepts:
  assumes "validateToken env req st = (Inr u, st')"
  shows "st' = st \<and> (\<exists>t. jwt_verify env t = Some u)"
  using assms
  by (auto simp: validateToken_def Let_def logger_def split: if_splits option.splits)

lemma protected_rejects_unauthenticated:
  assumes "validateToken env req st = (Inl r, st')"
  shows "fst (protected env svc req st) = r \<and> status r = 401
         \<and> forwarded (snd (protected env svc req st)) = forwarded st"
  using assms validateToken_rejects[OF assms] by (simp add: protected_def)

lemma protected_forwards_user_id:
  assumes "validateToken env req st = (Inr u, st')" "svc = PostService \<or> svc = SearchService"
  shows "\<exists>preq. forwarded (snd (protected env svc req st)) = forwarded st @ [preq]
           \<and> target preq = svc \<and> map_of (p_headers preq) ''x-user-id'' = Some (userId u)"
proof -
  from validateToken_accepts[OF assms(1)] have s: "st' = st" by simp
  let ?hs = "set_header ''x-user-id'' (userId u)
                     (set_header ''Content-Type'' ''application/json'' (headers req))"
  let ?preq = "\<lparr>target = svc, p_path = proxyReqPathResolver req, p_headers = ?hs\<rparr>"
  have d: "proxyReqOptDecorator svc req (Some u) = Inr ?hs"
    using assms(2) by (auto simp: proxyReqOptDecorator_def)
  have "forwarded (snd (protected env svc req st)) = forwarded st @ [?preq]"
    using assms(1) s d
    by (cases "upstream env ?preq") (simp_all add: protected_def proxy_def Let_def proxyErrorHandler_def logger_def)
  moreover have "map_of (p_headers ?preq) ''x-user-id'' = Some (userId u)"
    by (simp add: set_header_def)
  ultimately show ?thesis by auto
qed

lemma protected_media_forwards_user_id:
  assumes "validateToken env req st = (Inr u, st')"
    and "map_of (headers req) ''content-type'' = Some ct"
  shows "\<exists>preq. forwarded (snd (protected env MediaService req st)) = forwarded st @ [preq]
           \<and> target preq = MediaService \<and> map_of (p_headers preq) ''x-user-id'' = Some (userId u)"
proof -
  from validateToken_accepts[OF assms(1)] have s: "st' = st" by simp
  let ?hs0 = "set_header ''x-user-id'' (userId u) (headers req)"
  let ?hs = "if \<not> starts_with ''multipart/form-data'' ct
             then set_header ''Content-Type'' ''application/json'' ?hs0 else ?hs0"
  let ?preq = "\<lparr>target = MediaService, p_path = proxyReqPathResolver req, p_headers = ?hs\<rparr>"
  have d: "proxyReqOptDecorator MediaService req (Some u) = Inr ?hs"
    using assms(2) by (simp add: proxyReqOptDecorator_def Let_def)
  have "forwarded (snd (protected env MediaService req st)) = forwarded st @ [?preq]"
    using assms(1) s d
    by (cases "upstream env ?preq") (simp_all add: protected_def proxy_def Let_def proxyErrorHandler_def logger_def)
  moreover have "map_of (p_headers ?preq) ''x-user-id'' = Some (userId u)"
    by (simp add: set_header_def)
  ultimately show ?thesis by (intro exI[of _ ?preq]) simp
qed




section \<open>Properties of the media cleanup handler\<close>

lemma delete_one_ok:
  assumes "deletes env m"
  shows "\<exists>st'. delete_each env (m # ms) st = delete_each env ms st'
            \<and> calls st' = calls st @ attempts m"
proof -
  let ?st' = "logger Info (''Deleted media '' @ media_id m)
                (snd (Media_findByIdAndDelete env (media_id m)
                        (snd (deleteMediaFromCloudinary env (publicId m) st))))"
  have 1: "delete_each env (m # ms) st = delete_each env ms ?st'"
    using assms
    by (simp add: deletes_def await_def deleteMediaFromCloudinary_def Media_findByIdAndDelete_def Let_def
        cong: option.case_cong)
  have 2: "calls ?st' = calls st @ attempts m"
    using assms
    by (simp add: deletes_def deleteMediaFromCloudinary_def Media_findByIdAndDelete_def Let_def
        logger_def attempts_def)
  from 1 2 show ?thesis by blast
qed

lemma delete_each_prefix:
  assumes "\<forall>x \<in> set xs. deletes env x"
  shows "\<exists>st'. delete_each env (xs @ ys) st = delete_each env ys st'
            \<and> calls st' = calls st @ concat (map attempts xs)"
  using assms
proof (induction xs arbitrary: st)
  case Nil
  show ?case by (rule exI[of _ st]) simp
next
  case (Cons x xs)
  then have dx: "deletes env x" and rest: "\<forall>y \<in> set xs. deletes env y" by simp_all
  from delete_one_ok[OF dx, of "xs @ ys" st] obtain st1 where
    s1: "delete_each env (x # xs @ ys) st = delete_each env (xs @ ys) st1"
    and c1: "calls st1 = calls st @ attempts x" by blast
  from Cons.IH[OF rest, of st1] obtain st2 where
    s2: "delete_each env (xs @ ys) st1 = delete_each env ys st2"
    and c2: "calls st2 = calls st1 @ concat (map attempts xs)" by blast
  show ?case using s1 s2 c1 c2 by auto
qed

lemma delete_each_fails:
  assumes "\<not> deletes env m"
  shows "\<exists>e st'. delete_each env (m # ms) st = (Inl e, st')
            \<and> calls st' = calls st @ (if destroy_ok env (publicId m) then attempts m
                                       else [Destroy (publicId m)])"
  using assms
  by (auto simp: deletes_def await_def deleteMediaFromCloudinary_def Media_findByIdAndDelete_def
      Let_def attempts_def)

text \<open>
  Claim C4 as stated fails: the post had the media \<open>m1\<close> and \<open>m2\<close>, and MongoDB fails
  to delete the record of \<open>m1\<close> while everything else would succeed. The handler makes
  the two calls for \<open>m1\<close> and stops: no call is made for \<open>m2\<close>, which keeps its blob and
  its record.
\<close>

theorem media_cleanup_aborts_counterexample:
  "\<not> delete_ok media_env_record1_fails (media_id m1)
   \<and> destroy_ok media_env_record1_fails (publicId m2) \<and> delete_ok media_env_record1_fails (media_id m2)
   \<and> calls (handlePostDeleted media_env_record1_fails ''p1'' [''m1'', ''m2''] st_media)
        = [Destroy ''pub1'', FindByIdAndDelete ''m1'']
   \<and> medias (handlePostDeleted media_env_record1_fails ''p1'' [''m1'', ''m2''] st_media) = [m1, m2]
   \<and> blobs (handlePostDeleted media_env_record1_fails ''p1'' [''m1'', ''m2''] st_media) = [''pub2'']"
  by (simp add: handlePostDeleted_def try_catch_def await_def Media_find_def media_env_record1_fails_def
      st_media_def m1_def m2_def deleteMediaFromCloudinary_def Media_findByIdAndDelete_def Let_def
      logger_def)

text \<open>
  Claim C4, amended. The handler goes through the media records found for \<open>mediaIds\<close>
  in the order of the store. When the blob or the record of one of them cannot be
  deleted, the records before it have been deleted (both calls made for each), the
  failure is logged, and no call is made for the records after it.
\<close>

theorem media_cleanup_stops_at_first_failure:
  assumes "find_ok env"
    and "filter (\<lambda>x. media_id x \<in> set ids) (medias st) = pre @ m # post"
    and "\<forall>x \<in> set pre. deletes env x" and "\<not> deletes env m"
  shows "calls (handlePostDeleted env pid ids st)
           = calls st @ concat (map attempts pre)
               @ (if destroy_ok env (publicId m) then attempts m else [Destroy (publicId m)])
       \<and> last (logs (handlePostDeleted env pid ids st)) = (Error, ''Error occured while media deletion'')"
proof -
  from delete_each_prefix[OF assms(3), of "m # post" st] obtain st1 where
    s1: "delete_each env (pre @ m # post) st = delete_each env (m # post) st1"
    and c1: "calls st1 = calls st @ concat (map attempts pre)" by blast
  from delete_each_fails[OF assms(4), of post st1] obtain e st2 where
    s2: "delete_each env (m # post) st1 = (Inl e, st2)"
    and c2: "calls st2 = calls st1 @ (if destroy_ok env (publicId m) then attempts m
                                       else [Destroy (publicId m)])" by blast
  have h: "handlePostDeleted env pid ids st = logger Error ''Error occured while media deletion'' st2"
    using assms(1,2) s1 s2
    by (simp add: handlePostDeleted_def try_catch_def await_def Media_find_def)
  show ?thesis unfolding h using c1 c2 by (simp add: logger_def)
qed

theorem media_cleanup_stops_at_first_failure_witness:
  "find_ok media_env_pub2_fails
   \<and> filter (\<lambda>x. media_id x \<in> set [''m1'', ''m2'']) (medias st_media) = [m1] @ m2 # []
   \<and> deletes media_env_pub2_fails m1
   \<and> \<not> deletes media_env_pub2_fails m2
   \<and> calls (handlePostDeleted media_env_pub2_fails ''p1'' [''m1'', ''m2''] st_media)
        = [Destroy ''pub1'', FindByIdAndDelete ''m1'', Destroy ''pub2'']
   \<and> last (logs (handlePostDeleted media_env_pub2_fails ''p1'' [''m1'', ''m2''] st_media))
        = (Error, ''Error occured while media deletion'')"
proof -
  have a: "find_ok media_env_pub2_fails" by (simp add: media_env_pub2_fails_def)
  have b: "filter (\<lambda>x. media_id x \<in> set [''m1'', ''m2'']) (medias st_media) = [m1] @ m2 # []"
    by (simp add: st_media_def m1_def m2_def)
  have c1: "deletes media_env_pub2_fails m1"
    by (simp add: deletes_def media_env_pub2_fails_def m1_def)
  then have c: "\<forall>x \<in> set [m1]. deletes media_env_pub2_fails x" by simp
  have d: "\<not> deletes media_env_pub2_fails m2"
    by (simp add: deletes_def media_env_pub2_fails_def m2_def)
  have e: "\<not> destroy_ok media_env_pub2_fails (publicId m2)"
    by (simp add: media_env_pub2_fails_def m2_def)
  note w = media_cleanup_stops_at_first_failure[OF a b c d, of "''p1''"]
  from w e have f: "calls (handlePostDeleted media_env_pub2_fails ''p1'' [''m1'', ''m2''] st_media)
        = [Destroy ''pub1'', FindByIdAndDelete ''m1'', Destroy ''pub2'']"
    by (simp add: attempts_def st_media_def m1_def m2_def)
  from w have g: "last (logs (handlePostDeleted media_env_pub2_fails ''p1'' [''m1'', ''m2''] st_media))
        = (Error, ''Error occured while media deletion'')" by blast
  from a b c1 d f g show ?thesis by blast
qed

end
